theory Spec2Isabelle
  imports Main
begin

section \<open>Values, errors and driver handles\<close>

text \<open>
  Go's \<open>any\<close> (documents handed to the driver, decoded documents, inserted identifiers)
  is a tagged value. \<open>bson.D\<close> is an ordered list of key/value pairs. A Go \<open>error\<close> is
  an \<open>error option\<close>, \<open>None\<close> being \<open>nil\<close>. A call either returns or panics
  (dereferencing a nil pointer).
\<close>

datatype any =
    AnyNil
  | AnyString string
  | AnyInt int
  | AnyObjectID nat
  | AnySlice "any list"
  | AnyD "(string \<times> any) list"

type_synonym bson_D = "(string \<times> any) list"

datatype error = Error string

datatype 'a outcome = Returns 'a | Panic

datatype context_Context = Context nat

datatype mongo_Client = Client string

datatype mongo_Database = Database mongo_Client string

datatype mongo_Collection = MCollection mongo_Database string

text \<open>
  Modelled from the spec: the driver's handle constructors \<open>client.Database(name)\<close> and
  \<open>db.Collection(name)\<close>, whose code is not in the repository. They build a handle
  from the parent handle and the name ("pure construction; no I/O", "no validation is
  performed").
\<close>

definition Client_Database :: "mongo_Client \<Rightarrow> string \<Rightarrow> mongo_Database" where
  "Client_Database client name = Database client name"

definition Database_Collection :: "mongo_Database \<Rightarrow> string \<Rightarrow> mongo_Collection" where
  "Database_Collection d name = MCollection d name"

section \<open>The driver's result types\<close>

record UpdateResult =
  MatchedCount :: int
  ModifiedCount :: int

record InsertOneResult =
  InsertedID :: any

record InsertManyResult =
  InsertedIDs :: "any list"

record DeleteResult =
  DeletedCount :: int

text \<open>
  Modelled from the spec: the driver's \<open>*mongo.SingleResult\<close>, whose code is not in the
  repository. Its \<open>Decode(v)\<close> takes the value the caller's container holds and gives the
  error it returns together with the value the container holds afterwards.
\<close>

datatype SingleResult = SingleResult (sr_Decode: "any \<Rightarrow> error option \<times> any")

text \<open>
  Modelled from the spec: the driver's \<open>*mongo.Cursor\<close> with the four methods
  \<open>FindMany\<close> calls, whose code is not in the repository ("opens a server-side cursor for
  all documents matching the filter", "a cursor may fail mid-iteration even if individual
  next calls succeeded"). \<open>cur_batch\<close> are the results not yet visited, each with what
  decoding it gives (\<open>Inl\<close> a decode error, \<open>Inr\<close> the decoded document);
  \<open>cur_current\<close> is the result \<open>Next\<close> stopped at; \<open>cur_err\<close> is the terminal error
  state \<open>Err()\<close> reports once \<open>Next\<close> has returned false; \<open>cur_closed\<close> counts the
  calls of \<open>Close\<close>. \<open>Decode\<close> before any \<open>Next\<close> has no document to read and fails.
\<close>

record mongo_Cursor =
  cur_batch :: "(error + any) list"
  cur_current :: "(error + any) option"
  cur_err :: "error option"
  cur_closed :: nat

definition Cursor_Next :: "mongo_Cursor \<Rightarrow> bool \<times> mongo_Cursor" where
  "Cursor_Next c =
     (case cur_batch c of
        [] \<Rightarrow> (False, c)
      | x # xs \<Rightarrow> (True, c\<lparr>cur_batch := xs, cur_current := Some x\<rparr>))"

definition Cursor_Decode :: "mongo_Cursor \<Rightarrow> any \<Rightarrow> error option \<times> any" where
  "Cursor_Decode c v =
     (case cur_current c of
        None \<Rightarrow> (Some (Error ''EOF''), v)
      | Some (Inl e) \<Rightarrow> (Some e, v)
      | Some (Inr d) \<Rightarrow> (None, d))"

definition Cursor_Err :: "mongo_Cursor \<Rightarrow> error option" where
  "Cursor_Err c = cur_err c"

definition Cursor_Close :: "mongo_Cursor \<Rightarrow> mongo_Cursor" where
  "Cursor_Close c = c\<lparr>cur_closed := Suc (cur_closed c)\<rparr>"

text \<open>
  The collection methods of the driver, over the state \<open>'s\<close> of the store behind it.
  A Go pair \<open>(*T, error)\<close> is a pair of options: either component may be nil.
\<close>

record 's mongo_driver =
  Collection_Drop :: "mongo_Collection \<Rightarrow> context_Context \<Rightarrow> 's \<Rightarrow> error option \<times> 's"
  Collection_FindOne :: "mongo_Collection \<Rightarrow> context_Context \<Rightarrow> bson_D \<Rightarrow> 's \<Rightarrow> SingleResult \<times> 's"
  Collection_Find ::
    "mongo_Collection \<Rightarrow> context_Context \<Rightarrow> bson_D \<Rightarrow> 's \<Rightarrow> (mongo_Cursor option \<times> error option) \<times> 's"
  Collection_UpdateOne ::
    "mongo_Collection \<Rightarrow> context_Context \<Rightarrow> bson_D \<Rightarrow> bson_D \<Rightarrow> 's
       \<Rightarrow> (UpdateResult option \<times> error option) \<times> 's"
  Collection_UpdateMany ::
    "mongo_Collection \<Rightarrow> context_Context \<Rightarrow> bson_D \<Rightarrow> bson_D \<Rightarrow> 's
       \<Rightarrow> (UpdateResult option \<times> error option) \<times> 's"
  Collection_InsertOne ::
    "mongo_Collection \<Rightarrow> context_Context \<Rightarrow> any \<Rightarrow> 's \<Rightarrow> (InsertOneResult option \<times> error option) \<times> 's"
  Collection_InsertMany ::
    "mongo_Collection \<Rightarrow> context_Context \<Rightarrow> any list \<Rightarrow> 's
       \<Rightarrow> (InsertManyResult option \<times> error option) \<times> 's"
  Collection_DeleteOne ::
    "mongo_Collection \<Rightarrow> context_Context \<Rightarrow> bson_D \<Rightarrow> 's \<Rightarrow> (DeleteResult option \<times> error option) \<times> 's"
  Collection_DeleteMany ::
    "mongo_Collection \<Rightarrow> context_Context \<Rightarrow> bson_D \<Rightarrow> 's \<Rightarrow> (DeleteResult option \<times> error option) \<times> 's"

section \<open>The wrapper: handles\<close>

record DB =
  db :: mongo_Database
  client :: mongo_Client
  ctx :: context_Context

definition New :: "mongo_Client \<Rightarrow> string \<Rightarrow> context_Context \<Rightarrow> DB" where
  "New cl name cx = \<lparr>db = Client_Database cl name, client = cl, ctx = cx\<rparr>"

text \<open>\<open>Collection\<close> embeds \<open>*DB\<close>: the field \<open>parent\<close> is the database handle it was made from.\<close>

record Collection =
  parent :: DB
  collection :: mongo_Collection

definition NewCollection :: "DB \<Rightarrow> string \<Rightarrow> Collection" where
  "NewCollection wrapper collectionName =
     \<lparr>parent = wrapper, collection = Database_Collection (db wrapper) collectionName\<rparr>"

section \<open>The wrapper: operations\<close>

definition Drop :: "'s mongo_driver \<Rightarrow> Collection \<Rightarrow> 's \<Rightarrow> error option \<times> 's" where
  "Drop drv c s = Collection_Drop drv (collection c) (ctx (parent c)) s"

text \<open>\<open>FindOne\<close> returns the error and the value the container \<open>res\<close> holds afterwards.\<close>

definition FindOne ::
  "'s mongo_driver \<Rightarrow> Collection \<Rightarrow> bson_D \<Rightarrow> any \<Rightarrow> 's \<Rightarrow> (error option \<times> any) \<times> 's" where
  "FindOne drv c filter' res s =
     (let (sr, s') = Collection_FindOne drv (collection c) (ctx (parent c)) filter' s;
          (err, res') = sr_Decode sr res
      in if err \<noteq> None then ((err, res'), s') else ((None, res'), s'))"

text \<open>
  The loop of \<open>FindMany\<close>. \<open>res\<close> is what the pointer \<open>res\<close> points to, \<open>None\<close> for a
  nil pointer (appending through it panics). The loop ends with \<open>Inl\<close> when the function
  leaves from inside the loop, and with \<open>Inr ()\<close> when \<open>Next\<close> has returned false.
\<close>

function FindMany_loop ::
  "mongo_Cursor \<Rightarrow> any list option
     \<Rightarrow> (error option outcome + unit) \<times> any list option \<times> mongo_Cursor" where
  "FindMany_loop cursor res =
     (let (more, cursor') = Cursor_Next cursor in
      if more then
        (let doc = AnySlice [];
             (err, doc') = Cursor_Decode cursor' doc
         in if err \<noteq> None then (Inl (Returns err), res, cursor')
            else (case res of
                    None \<Rightarrow> (Inl Panic, res, cursor')
                  | Some xs \<Rightarrow> FindMany_loop cursor' (Some (xs @ [doc']))))
      else (Inr (), res, cursor'))"
  by pat_completeness auto
termination
  by (relation "measure (\<lambda>(cursor, res). length (cur_batch cursor))")
     (auto simp: Cursor_Next_def split: list.splits)

text \<open>
  \<open>FindMany\<close> returns what the call does, what \<open>res\<close> points to afterwards, the cursor
  as the call leaves it (\<open>None\<close> when the driver gave a nil cursor) and the store.
\<close>

definition FindMany ::
  "'s mongo_driver \<Rightarrow> Collection \<Rightarrow> bson_D \<Rightarrow> any list option \<Rightarrow> 's
     \<Rightarrow> (error option outcome \<times> any list option \<times> mongo_Cursor option) \<times> 's" where
  "FindMany drv c filter' res s =
     (let ((cursor, err), s') = Collection_Find drv (collection c) (ctx (parent c)) filter' s
      in case cursor of
           None \<Rightarrow> ((Panic, res, None), s')
         | Some cur \<Rightarrow>
             (case FindMany_loop cur res of
                (Inl out, res', cur') \<Rightarrow> ((out, res', Some cur'), s')
              | (Inr u, res', cur') \<Rightarrow>
                  if Cursor_Err cur' \<noteq> None then ((Returns err, res', Some cur'), s')
                  else ((Returns None, res', Some (Cursor_Close cur')), s')))"

definition UpdateOne ::
  "'s mongo_driver \<Rightarrow> Collection \<Rightarrow> bson_D \<Rightarrow> bson_D \<Rightarrow> 's
     \<Rightarrow> (int \<times> int \<times> error option) outcome \<times> 's" where
  "UpdateOne drv c filter' update s =
     (let ((updateRes, err), s') =
            Collection_UpdateOne drv (collection c) (ctx (parent c)) filter' update s
      in if err \<noteq> None then (Returns (0, 0, err), s')
         else (case updateRes of
                 None \<Rightarrow> (Panic, s')
               | Some r \<Rightarrow> (Returns (MatchedCount r, ModifiedCount r, None), s')))"

definition UpdateMany ::
  "'s mongo_driver \<Rightarrow> Collection \<Rightarrow> bson_D \<Rightarrow> bson_D \<Rightarrow> 's
     \<Rightarrow> (int \<times> int \<times> error option) outcome \<times> 's" where
  "UpdateMany drv c filter' update s =
     (let ((updateRes, err), s') =
            Collection_UpdateMany drv (collection c) (ctx (parent c)) filter' update s
      in if err \<noteq> None then (Returns (0, 0, err), s')
         else (case updateRes of
                 None \<Rightarrow> (Panic, s')
               | Some r \<Rightarrow> (Returns (MatchedCount r, ModifiedCount r, None), s')))"

definition InsertOne ::
  "'s mongo_driver \<Rightarrow> Collection \<Rightarrow> any \<Rightarrow> 's \<Rightarrow> (any \<times> error option) outcome \<times> 's" where
  "InsertOne drv c new s =
     (let ((insertRes, err), s') =
            Collection_InsertOne drv (collection c) (ctx (parent c)) new s
      in if err \<noteq> None then (Returns (AnyString '''', err), s')
         else (case insertRes of
                 None \<Rightarrow> (Panic, s')
               | Some r \<Rightarrow> (Returns (InsertedID r, None), s')))"

definition InsertMany ::
  "'s mongo_driver \<Rightarrow> Collection \<Rightarrow> any list \<Rightarrow> 's \<Rightarrow> (any \<times> error option) outcome \<times> 's" where
  "InsertMany drv c new s =
     (let ((insertRes, err), s') =
            Collection_InsertMany drv (collection c) (ctx (parent c)) new s
      in if err \<noteq> None then (Returns (AnyString '''', err), s')
         else (case insertRes of
                 None \<Rightarrow> (Panic, s')
               | Some r \<Rightarrow> (Returns (AnySlice (InsertedIDs r), None), s')))"

definition DeleteOne :: "'s mongo_driver \<Rightarrow> Collection \<Rightarrow> bson_D \<Rightarrow> 's \<Rightarrow> error option \<times> 's" where
  "DeleteOne drv c filter' s =
     (let ((deleteRes, err), s') =
            Collection_DeleteOne drv (collection c) (ctx (parent c)) filter' s
      in if err \<noteq> None then (err, s') else (None, s'))"

definition DeleteMany :: "'s mongo_driver \<Rightarrow> Collection \<Rightarrow> bson_D \<Rightarrow> 's \<Rightarrow> error option \<times> 's" where
  "DeleteMany drv c filter' s =
     (let ((deleteRes, err), s') =
            Collection_DeleteMany drv (collection c) (ctx (parent c)) filter' s
      in if err \<noteq> None then (err, s') else (None, s'))"

section \<open>The store behind the driver\<close>

text \<open>
  Modelled from the spec: the document store and the driver's collection methods
  (\<open>go.mongodb.org/mongo-driver/mongo\<close>), an external dependency whose code is not part of
  the repository. Every collection holds its documents in store order, each under a
  generated identifier. What a filter matches, what an update does to a document and how
  a document decodes into a container are the parameters \<open>m\<close>, \<open>u\<close> and \<open>dec\<close>.
  When \<open>st_down\<close> is set (the store cannot be reached, the context is cancelled) every
  call fails with that error and changes nothing.
\<close>

text \<open>
  Modelled from the spec: the state of the store. A collection handle names its documents,
  in store order, each under its generated identifier; \<open>st_next\<close> is the next identifier
  to give out; \<open>st_down\<close> is the error every call fails with while the store cannot be
  reached.
\<close>

record store =
  st_colls :: "mongo_Collection \<Rightarrow> (nat \<times> any) list"
  st_next :: nat
  st_down :: "error option"

text \<open>
  Modelled from the spec: the error of a single-document read that found nothing
  (\<open>NotFound\<close>).
\<close>

definition ErrNoDocuments :: error where
  "ErrNoDocuments = Error ''mongo: no documents in result''"

text \<open>
  Modelled from the spec: the documents of a collection that a filter matches, in store
  order.
\<close>

definition matching :: "(bson_D \<Rightarrow> any \<Rightarrow> bool) \<Rightarrow> bson_D \<Rightarrow> (nat \<times> any) list \<Rightarrow> (nat \<times> any) list" where
  "matching m f ds = filter (\<lambda>(i, d). m f d) ds"

text \<open>
  Modelled from the spec: \<open>updateOne\<close> "applies update to at most one document matching
  filter. Both counts are 0 or 1; counts may differ (e.g., matched=1, modified=0 if the
  update is a no-op)". The result is the new documents, the matched count and the
  modified count.
\<close>

fun update_first ::
  "(any \<Rightarrow> bool) \<Rightarrow> (any \<Rightarrow> any) \<Rightarrow> (nat \<times> any) list \<Rightarrow> (nat \<times> any) list \<times> int \<times> int" where
  "update_first p g [] = ([], 0, 0)"
| "update_first p g ((i, d) # ds) =
     (if p d then ((i, g d) # ds, 1, if g d = d then 0 else 1)
      else (let (ds', matched, modified) = update_first p g ds
            in ((i, d) # ds', matched, modified)))"

text \<open>
  Modelled from the spec: \<open>deleteOne\<close> "deletes at most one matching document". The result
  is the new documents and the deleted count.
\<close>

fun delete_first :: "(any \<Rightarrow> bool) \<Rightarrow> (nat \<times> any) list \<Rightarrow> (nat \<times> any) list \<times> int" where
  "delete_first p [] = ([], 0)"
| "delete_first p ((i, d) # ds) =
     (if p d then (ds, 1)
      else (let (ds', n) = delete_first p ds in ((i, d) # ds', n)))"

text \<open>
  Modelled from the spec: \<open>drop\<close> "drops the entire collection, i.e., deletes all
  documents".
\<close>

definition store_Drop :: "mongo_Collection \<Rightarrow> context_Context \<Rightarrow> store \<Rightarrow> error option \<times> store" where
  "store_Drop coll cx s =
     (case st_down s of
        Some e \<Rightarrow> (Some e, s)
      | None \<Rightarrow> (None, s\<lparr>st_colls := (st_colls s)(coll := [])\<rparr>))"

text \<open>
  Modelled from the spec: \<open>findOne\<close> "decodes the first matching document into the
  caller-supplied result container. Fails with NotFound (or equivalent decode error) when
  no document matches, or DecodeError when the document shape is incompatible with the
  target container", and "leaves the target container unmodified" when it fails.
\<close>

definition store_FindOne ::
  "(bson_D \<Rightarrow> any \<Rightarrow> bool) \<Rightarrow> (any \<Rightarrow> any \<Rightarrow> error + any)
     \<Rightarrow> mongo_Collection \<Rightarrow> context_Context \<Rightarrow> bson_D \<Rightarrow> store \<Rightarrow> SingleResult \<times> store" where
  "store_FindOne m dec coll cx f s =
     (case st_down s of
        Some e \<Rightarrow> (SingleResult (\<lambda>v. (Some e, v)), s)
      | None \<Rightarrow>
          (case matching m f (st_colls s coll) of
             [] \<Rightarrow> (SingleResult (\<lambda>v. (Some ErrNoDocuments, v)), s)
           | (i, d) # ds \<Rightarrow>
               (SingleResult (\<lambda>v. case dec d v of Inl e \<Rightarrow> (Some e, v) | Inr v' \<Rightarrow> (None, v')), s)))"

text \<open>
  Modelled from the spec: \<open>findMany\<close> "opens a server-side cursor for all documents
  matching the filter", in the store's order; each result decodes into a new slice
  value.
\<close>

definition store_Find ::
  "(bson_D \<Rightarrow> any \<Rightarrow> bool) \<Rightarrow> (any \<Rightarrow> any \<Rightarrow> error + any)
     \<Rightarrow> mongo_Collection \<Rightarrow> context_Context \<Rightarrow> bson_D \<Rightarrow> store
     \<Rightarrow> (mongo_Cursor option \<times> error option) \<times> store" where
  "store_Find m dec coll cx f s =
     (case st_down s of
        Some e \<Rightarrow> ((None, Some e), s)
      | None \<Rightarrow>
          ((Some \<lparr>cur_batch = map (\<lambda>(i, d). dec d (AnySlice [])) (matching m f (st_colls s coll)),
                  cur_current = None, cur_err = None, cur_closed = 0\<rparr>, None), s))"

text \<open>
  Modelled from the spec: an update document is a sequence of pairs "field name ->
  query/update expression". The driver reads it before it asks the store, and refuses
  with an error a document that is empty or whose first key is not an update operator (a
  key beginning with \<open>$\<close>, such as \<open>$set\<close>).
\<close>

definition update_document_error :: "bson_D \<Rightarrow> error option" where
  "update_document_error upd =
     (case upd of
        [] \<Rightarrow> Some (Error ''update document must have at least one element'')
      | (k, v) # rest \<Rightarrow>
          (case k of
             [] \<Rightarrow> Some (Error ''update document must contain key beginning with $'')
           | ch # chs \<Rightarrow>
               if ch = CHR ''$'' then None
               else Some (Error ''update document must contain key beginning with $'')))"

text \<open>
  Modelled from the spec: the driver's \<open>UpdateOne\<close>, by \<open>update_first\<close>.
\<close>

definition store_UpdateOne ::
  "(bson_D \<Rightarrow> any \<Rightarrow> bool) \<Rightarrow> (bson_D \<Rightarrow> any \<Rightarrow> any)
     \<Rightarrow> mongo_Collection \<Rightarrow> context_Context \<Rightarrow> bson_D \<Rightarrow> bson_D \<Rightarrow> store
     \<Rightarrow> (UpdateResult option \<times> error option) \<times> store" where
  "store_UpdateOne m u coll cx f upd s =
     (case update_document_error upd of
        Some e \<Rightarrow> ((None, Some e), s)
      | None \<Rightarrow>
          (case st_down s of
             Some e \<Rightarrow> ((None, Some e), s)
           | None \<Rightarrow>
               (let (ds', matched, modified) = update_first (m f) (u upd) (st_colls s coll)
                in ((Some \<lparr>MatchedCount = matched, ModifiedCount = modified\<rparr>, None),
                    s\<lparr>st_colls := (st_colls s)(coll := ds')\<rparr>))))"

text \<open>
  Modelled from the spec: \<open>updateMany\<close> "applies update to every document matching
  filter; counts may be >= 0 and may differ from one another"; the matched count is the
  number of matching documents and the modified count the number of those the update
  changes.
\<close>

definition store_UpdateMany ::
  "(bson_D \<Rightarrow> any \<Rightarrow> bool) \<Rightarrow> (bson_D \<Rightarrow> any \<Rightarrow> any)
     \<Rightarrow> mongo_Collection \<Rightarrow> context_Context \<Rightarrow> bson_D \<Rightarrow> bson_D \<Rightarrow> store
     \<Rightarrow> (UpdateResult option \<times> error option) \<times> store" where
  "store_UpdateMany m u coll cx f upd s =
     (case update_document_error upd of
        Some e \<Rightarrow> ((None, Some e), s)
      | None \<Rightarrow>
          (case st_down s of
             Some e \<Rightarrow> ((None, Some e), s)
           | None \<Rightarrow>
               (let ds = st_colls s coll;
                    ds' = map (\<lambda>(i, d). if m f d then (i, u upd d) else (i, d)) ds;
                    matched = int (length (matching m f ds));
                    modified = int (length (filter (\<lambda>(i, d). m f d \<and> u upd d \<noteq> d) ds))
                in ((Some \<lparr>MatchedCount = matched, ModifiedCount = modified\<rparr>, None),
                    s\<lparr>st_colls := (st_colls s)(coll := ds')\<rparr>))))"

text \<open>
  Modelled from the spec: \<open>insertOne\<close> "inserts one document; returns the
  server/client-generated identifier of the new document".
\<close>

definition store_InsertOne ::
  "mongo_Collection \<Rightarrow> context_Context \<Rightarrow> any \<Rightarrow> store
     \<Rightarrow> (InsertOneResult option \<times> error option) \<times> store" where
  "store_InsertOne coll cx d s =
     (case st_down s of
        Some e \<Rightarrow> ((None, Some e), s)
      | None \<Rightarrow>
          ((Some \<lparr>InsertedID = AnyObjectID (st_next s)\<rparr>, None),
           s\<lparr>st_colls := (st_colls s)(coll := st_colls s coll @ [(st_next s, d)]),
             st_next := Suc (st_next s)\<rparr>))"

text \<open>
  Modelled from the spec: \<open>insertMany\<close> "inserts an ordered batch; returns the
  set/sequence of generated identifiers, indexed correspondingly to the input order".
\<close>

definition store_InsertMany ::
  "mongo_Collection \<Rightarrow> context_Context \<Rightarrow> any list \<Rightarrow> store
     \<Rightarrow> (InsertManyResult option \<times> error option) \<times> store" where
  "store_InsertMany coll cx ds s =
     (case st_down s of
        Some e \<Rightarrow> ((None, Some e), s)
      | None \<Rightarrow>
          (let ids = [st_next s ..< st_next s + length ds]
           in ((Some \<lparr>InsertedIDs = map AnyObjectID ids\<rparr>, None),
               s\<lparr>st_colls := (st_colls s)(coll := st_colls s coll @ zip ids ds),
                 st_next := st_next s + length ds\<rparr>)))"

text \<open>
  Modelled from the spec: the driver's \<open>DeleteOne\<close>, by \<open>delete_first\<close>.
\<close>

definition store_DeleteOne ::
  "(bson_D \<Rightarrow> any \<Rightarrow> bool)
     \<Rightarrow> mongo_Collection \<Rightarrow> context_Context \<Rightarrow> bson_D \<Rightarrow> store
     \<Rightarrow> (DeleteResult option \<times> error option) \<times> store" where
  "store_DeleteOne m coll cx f s =
     (case st_down s of
        Some e \<Rightarrow> ((None, Some e), s)
      | None \<Rightarrow>
          (let (ds', n) = delete_first (m f) (st_colls s coll)
           in ((Some \<lparr>DeletedCount = n\<rparr>, None), s\<lparr>st_colls := (st_colls s)(coll := ds')\<rparr>)))"

text \<open>
  Modelled from the spec: \<open>deleteMany\<close> "deletes all matching documents".
\<close>

definition store_DeleteMany ::
  "(bson_D \<Rightarrow> any \<Rightarrow> bool)
     \<Rightarrow> mongo_Collection \<Rightarrow> context_Context \<Rightarrow> bson_D \<Rightarrow> store
     \<Rightarrow> (DeleteResult option \<times> error option) \<times> store" where
  "store_DeleteMany m coll cx f s =
     (case st_down s of
        Some e \<Rightarrow> ((None, Some e), s)
      | None \<Rightarrow>
          (let ds = st_colls s coll
           in ((Some \<lparr>DeletedCount = int (length (matching m f ds))\<rparr>, None),
               s\<lparr>st_colls := (st_colls s)(coll := filter (\<lambda>(i, d). \<not> m f d) ds)\<rparr>)))"

text \<open>
  Modelled from the spec: the driver over the modelled store.
\<close>

definition store_driver ::
  "(bson_D \<Rightarrow> any \<Rightarrow> bool) \<Rightarrow> (bson_D \<Rightarrow> any \<Rightarrow> any) \<Rightarrow> (any \<Rightarrow> any \<Rightarrow> error + any)
     \<Rightarrow> store mongo_driver" where
  "store_driver m u dec =
     \<lparr>Collection_Drop = store_Drop,
      Collection_FindOne = store_FindOne m dec,
      Collection_Find = store_Find m dec,
      Collection_UpdateOne = store_UpdateOne m u,
      Collection_UpdateMany = store_UpdateMany m u,
      Collection_InsertOne = store_InsertOne,
      Collection_InsertMany = store_InsertMany,
      Collection_DeleteOne = store_DeleteOne m,
      Collection_DeleteMany = store_DeleteMany m\<rparr>"

text \<open>
  A concrete reading of filters, updates and decoding, for running the model: a filter
  matches a document that holds each of its fields with the same value; the update
  operator \<open>$set\<close> gives each field it names the value it names, adding the field when
  the document has none of that name, and nothing else of an update document changes a
  document; a document decodes into any container as itself.
\<close>

definition field_matches :: "bson_D \<Rightarrow> any \<Rightarrow> bool" where
  "field_matches f d =
     (case d of
        AnyD kvs \<Rightarrow> list_all (\<lambda>(k, v). map_of kvs k = Some v) f
      | _ \<Rightarrow> False)"

fun set_field :: "string \<Rightarrow> any \<Rightarrow> (string \<times> any) list \<Rightarrow> (string \<times> any) list" where
  "set_field k v [] = [(k, v)]"
| "set_field k v ((k', v') # kvs) =
     (if k' = k then (k, v) # kvs else (k', v') # set_field k v kvs)"

definition set_fields :: "bson_D \<Rightarrow> any \<Rightarrow> any" where
  "set_fields upd d =
     (case d of
        AnyD kvs \<Rightarrow>
          (case map_of upd ''$set'' of
             Some (AnyD sets) \<Rightarrow> AnyD (fold (\<lambda>(k, v). set_field k v) sets kvs)
           | _ \<Rightarrow> d)
      | _ \<Rightarrow> d)"

definition decode_any :: "any \<Rightarrow> any \<Rightarrow> error + any" where
  "decode_any d v = Inr d"

definition demo_driver :: "store mongo_driver" where
  "demo_driver = store_driver field_matches set_fields decode_any"

definition demo_db :: DB where
  "demo_db = New (Client ''mongodb://localhost:27017'') ''app'' (Context 0)"

definition users :: Collection where
  "users = NewCollection demo_db ''users''"

definition doc_a1 :: any where
  "doc_a1 = AnyD [(''name'', AnyString ''a''), (''n'', AnyInt 1)]"

definition doc_a2 :: any where
  "doc_a2 = AnyD [(''name'', AnyString ''a''), (''n'', AnyInt 2)]"

definition doc_b :: any where
  "doc_b = AnyD [(''name'', AnyString ''b''), (''n'', AnyInt 3)]"

definition demo_store :: store where
  "demo_store =
     \<lparr>st_colls = (\<lambda>coll. [])(collection users := [(0, doc_a1), (1, doc_a2), (2, doc_b)]),
      st_next = 3, st_down = None\<rparr>"

definition down_store :: store where
  "down_store = demo_store\<lparr>st_down := Some (Error ''context deadline exceeded'')\<rparr>"

text \<open>
  A driver like \<open>demo_driver\<close> whose \<open>Find\<close> answers with a given cursor and error, for
  running \<open>FindMany\<close> on a chosen behaviour of the cursor.
\<close>

definition Find_answers :: "mongo_Cursor option \<Rightarrow> error option \<Rightarrow> store mongo_driver" where
  "Find_answers cur err = demo_driver\<lparr>Collection_Find := (\<lambda>coll cx f s. ((cur, err), s))\<rparr>"

definition new_cursor :: "(error + any) list \<Rightarrow> error option \<Rightarrow> mongo_Cursor" where
  "new_cursor batch err = \<lparr>cur_batch = batch, cur_current = None, cur_err = err, cur_closed = 0\<rparr>"

text \<open>
  Modelled from the spec: "a cursor may fail mid-iteration even if individual next calls
  succeeded". \<open>Find\<close> on a store whose cursor delivers the first \<open>k\<close> of the documents the
  filter matches and then ends with the terminal error \<open>e\<close> (the connection is lost
  while the rest is fetched).
\<close>

definition store_Find_killed ::
  "(bson_D \<Rightarrow> any \<Rightarrow> bool) \<Rightarrow> (any \<Rightarrow> any \<Rightarrow> error + any) \<Rightarrow> nat \<Rightarrow> error
     \<Rightarrow> mongo_Collection \<Rightarrow> context_Context \<Rightarrow> bson_D \<Rightarrow> store
     \<Rightarrow> (mongo_Cursor option \<times> error option) \<times> store" where
  "store_Find_killed m dec k e coll cx f s =
     (case st_down s of
        Some e' \<Rightarrow> ((None, Some e'), s)
      | None \<Rightarrow>
          ((Some \<lparr>cur_batch =
                    map (\<lambda>(i, d). dec d (AnySlice [])) (take k (matching m f (st_colls s coll))),
                  cur_current = None, cur_err = Some e, cur_closed = 0\<rparr>, None), s))"

definition killed_driver :: "nat \<Rightarrow> error \<Rightarrow> store mongo_driver" where
  "killed_driver k e =
     demo_driver\<lparr>Collection_Find := store_Find_killed field_matches decode_any k e\<rparr>"

section \<open>The loop of FindMany\<close>

declare FindMany_loop.simps [simp del]

lemma FindMany_loop_Nil:
  "cur_batch cursor = [] \<Longrightarrow> FindMany_loop cursor res = (Inr (), res, cursor)"
  by (subst FindMany_loop.simps) (simp add: Cursor_Next_def)

lemma FindMany_loop_Inl:
  "cur_batch cursor = Inl e # rest \<Longrightarrow>
   FindMany_loop cursor res =
     (Inl (Returns (Some e)), res, cursor\<lparr>cur_batch := rest, cur_current := Some (Inl e)\<rparr>)"
  by (subst FindMany_loop.simps) (simp add: Cursor_Next_def Cursor_Decode_def)

lemma FindMany_loop_Inr:
  "cur_batch cursor = Inr d # rest \<Longrightarrow>
   FindMany_loop cursor (Some xs) =
     FindMany_loop (cursor\<lparr>cur_batch := rest, cur_current := Some (Inr d)\<rparr>) (Some (xs @ [d]))"
  by (subst FindMany_loop.simps) (simp add: Cursor_Next_def Cursor_Decode_def)

lemma FindMany_loop_Inr_nil:
  "cur_batch cursor = Inr d # rest \<Longrightarrow>
   FindMany_loop cursor None =
     (Inl Panic, None, cursor\<lparr>cur_batch := rest, cur_current := Some (Inr d)\<rparr>)"
  by (subst FindMany_loop.simps) (simp add: Cursor_Next_def Cursor_Decode_def)

text \<open>What the loop does to the slice and the batch, whatever the batch holds.\<close>

lemma FindMany_loop_res:
  "FindMany_loop cursor (Some xs) = (r, res', cursor') \<Longrightarrow>
     (\<exists>ds rest. cur_batch cursor = map Inr ds @ rest \<and> res' = Some (xs @ ds) \<and>
        cur_batch cursor' = (case rest of [] \<Rightarrow> [] | y # ys \<Rightarrow> ys) \<and>
        cur_closed cursor' = cur_closed cursor \<and> cur_err cursor' = cur_err cursor \<and>
        (case rest of [] \<Rightarrow> r = Inr () | Inl e # ys \<Rightarrow> r = Inl (Returns (Some e)) | Inr d # ys \<Rightarrow> False))"
proof (induction "cur_batch cursor" arbitrary: cursor xs)
  case Nil
  then show ?case by (simp add: FindMany_loop_Nil [OF Nil(1)[symmetric]])
next
  case (Cons a as)
  show ?case
  proof (cases a)
    case (Inl e)
    with Cons(2) have b: "cur_batch cursor = Inl e # as" by simp
    from Cons(3) show ?thesis
      unfolding FindMany_loop_Inl [OF b]
      by (intro exI [of _ "[]"] exI [of _ "Inl e # as"]) (auto simp: b)
  next
    case (Inr d)
    with Cons(2) have b: "cur_batch cursor = Inr d # as" by simp
    let ?c = "cursor\<lparr>cur_batch := as, cur_current := Some (Inr d)\<rparr>"
    from Cons(3) have "FindMany_loop ?c (Some (xs @ [d])) = (r, res', cursor')"
      unfolding FindMany_loop_Inr [OF b] .
    from Cons(1) [of ?c, OF _ this] obtain ds rest where
      "cur_batch ?c = map Inr ds @ rest" "res' = Some ((xs @ [d]) @ ds)"
      "cur_batch cursor' = (case rest of [] \<Rightarrow> [] | y # ys \<Rightarrow> ys)"
      "cur_closed cursor' = cur_closed ?c" "cur_err cursor' = cur_err ?c"
      "(case rest of [] \<Rightarrow> r = Inr () | Inl e # ys \<Rightarrow> r = Inl (Returns (Some e)) | Inr d # ys \<Rightarrow> False)"
      by auto
    then show ?thesis
      by (intro exI [of _ "d # ds"] exI [of _ rest]) (simp add: b)
  qed
qed

section \<open>Running the model\<close>

lemmas demo_defs = demo_driver_def store_driver_def demo_db_def users_def New_def NewCollection_def
  Client_Database_def Database_Collection_def demo_store_def down_store_def
  doc_a1_def doc_a2_def doc_b_def Find_answers_def new_cursor_def

section \<open>Handles\<close>

text \<open>
  C9: a collection handle made by \<open>NewCollection\<close> holds the database handle it was made
  from, so its context and its client are the parent's, unchanged. The construction is a
  total function of the parent and the name: it reads no store, has no error result and
  accepts every name, the empty one included; the driver's collection handle is the one
  \<open>db.Collection(name)\<close> builds.
\<close>

theorem NewCollection_inherits:
  "parent (NewCollection wrapper collectionName) = wrapper \<and>
   ctx (parent (NewCollection wrapper collectionName)) = ctx wrapper \<and>
   client (parent (NewCollection wrapper collectionName)) = client wrapper \<and>
   collection (NewCollection wrapper collectionName) = Database_Collection (db wrapper) collectionName"
  by (simp add: NewCollection_def)

section \<open>Errors of the write operations\<close>

text \<open>
  C10: when the driver's update call returns a non-nil error, \<open>UpdateOne\<close> and
  \<open>UpdateMany\<close> return the counts 0 and 0 with that error; when the driver's insert call
  returns a non-nil error, \<open>InsertOne\<close> and \<open>InsertMany\<close> return the empty string with that
  error, which is neither nil nor an empty sequence. This holds whatever result pointer
  the driver returns beside the error.
\<close>

theorem write_error_results:
  "(Collection_UpdateOne drv (collection c) (ctx (parent c)) f upd s = ((r1, Some e), s')
      \<longrightarrow> UpdateOne drv c f upd s = (Returns (0, 0, Some e), s')) \<and>
   (Collection_UpdateMany drv (collection c) (ctx (parent c)) f upd s = ((r2, Some e), s')
      \<longrightarrow> UpdateMany drv c f upd s = (Returns (0, 0, Some e), s')) \<and>
   (Collection_InsertOne drv (collection c) (ctx (parent c)) new s = ((r3, Some e), s')
      \<longrightarrow> InsertOne drv c new s = (Returns (AnyString '''', Some e), s')) \<and>
   (Collection_InsertMany drv (collection c) (ctx (parent c)) news s = ((r4, Some e), s')
      \<longrightarrow> InsertMany drv c news s = (Returns (AnyString '''', Some e), s')) \<and>
   AnyString '''' \<noteq> AnyNil \<and> AnyString '''' \<noteq> AnySlice []"
  by (simp add: UpdateOne_def UpdateMany_def InsertOne_def InsertMany_def)

text \<open>The store that cannot be reached fails every write; the wrapper answers as stated.\<close>

theorem write_error_results_witness:
  "UpdateOne demo_driver users [] [(''$set'', AnyD [(''n'', AnyInt 1)])] down_store
     = (Returns (0, 0, Some (Error ''context deadline exceeded'')), down_store) \<and>
   UpdateMany demo_driver users [] [(''$set'', AnyD [(''n'', AnyInt 1)])] down_store
     = (Returns (0, 0, Some (Error ''context deadline exceeded'')), down_store) \<and>
   InsertOne demo_driver users doc_b down_store
     = (Returns (AnyString '''', Some (Error ''context deadline exceeded'')), down_store) \<and>
   InsertMany demo_driver users [doc_b] down_store
     = (Returns (AnyString '''', Some (Error ''context deadline exceeded'')), down_store)"
proof -
  let ?e = "Error ''context deadline exceeded''"
  have 1: "Collection_UpdateOne demo_driver (collection users) (ctx (parent users)) []
             [(''$set'', AnyD [(''n'', AnyInt 1)])] down_store
             = ((None, Some ?e), down_store)"
    by (simp add: demo_defs store_UpdateOne_def update_document_error_def)
  have 2: "Collection_UpdateMany demo_driver (collection users) (ctx (parent users)) []
             [(''$set'', AnyD [(''n'', AnyInt 1)])] down_store
             = ((None, Some ?e), down_store)"
    by (simp add: demo_defs store_UpdateMany_def update_document_error_def)
  have 3: "Collection_InsertOne demo_driver (collection users) (ctx (parent users)) doc_b down_store
             = ((None, Some ?e), down_store)"
    by (simp add: demo_defs store_InsertOne_def)
  have 4: "Collection_InsertMany demo_driver (collection users) (ctx (parent users)) [doc_b] down_store
             = ((None, Some ?e), down_store)"
    by (simp add: demo_defs store_InsertMany_def)
  from write_error_results [where drv = demo_driver and c = users and f = "[]" and upd = "[(''$set'', AnyD [(''n'', AnyInt 1)])]"
      and s = down_store and s' = down_store and e = ?e and ?new = doc_b and news = "[doc_b]"
      and ?r1.0 = None and ?r2.0 = None and ?r3.0 = None and ?r4.0 = None] 1 2 3 4
  show ?thesis by simp
qed

section \<open>Deleting\<close>

text \<open>
  C7: when the driver's delete call returns a nil error, \<open>DeleteOne\<close> and \<open>DeleteMany\<close>
  return nil, whatever result the driver returns beside it: the deleted count (zero
  included) is dropped and is no part of what the wrapper returns.
\<close>

theorem Delete_returns_nil:
  "(Collection_DeleteOne drv (collection c) (ctx (parent c)) f s = ((r1, None), s1)
      \<longrightarrow> DeleteOne drv c f s = (None, s1)) \<and>
   (Collection_DeleteMany drv (collection c) (ctx (parent c)) f s = ((r2, None), s2)
      \<longrightarrow> DeleteMany drv c f s = (None, s2))"
  by (simp add: DeleteOne_def DeleteMany_def)

text \<open>
  On the store of three documents: a filter that matches nothing (the driver reports 0
  deleted) and a filter that matches two (the driver reports 2) both give nil.
\<close>

theorem Delete_returns_nil_witness:
  "fst (fst (Collection_DeleteOne demo_driver (collection users) (ctx (parent users))
        [(''name'', AnyString ''z'')] demo_store)) = Some \<lparr>DeletedCount = 0\<rparr> \<and>
   fst (DeleteOne demo_driver users [(''name'', AnyString ''z'')] demo_store) = None \<and>
   fst (fst (Collection_DeleteMany demo_driver (collection users) (ctx (parent users))
        [(''name'', AnyString ''a'')] demo_store)) = Some \<lparr>DeletedCount = 2\<rparr> \<and>
   fst (DeleteMany demo_driver users [(''name'', AnyString ''a'')] demo_store) = None"
proof -
  let ?X = "Collection_DeleteOne demo_driver (collection users) (ctx (parent users))
              [(''name'', AnyString ''z'')] demo_store"
  let ?Y = "Collection_DeleteMany demo_driver (collection users) (ctx (parent users))
              [(''name'', AnyString ''a'')] demo_store"
  have x: "fst ?X = (Some \<lparr>DeletedCount = 0\<rparr>, None)"
    by (simp add: demo_defs store_DeleteOne_def field_matches_def split_def)
  have y: "fst ?Y = (Some \<lparr>DeletedCount = 2\<rparr>, None)"
    by (simp add: demo_defs store_DeleteMany_def matching_def field_matches_def)
  have X: "?X = ((Some \<lparr>DeletedCount = 0\<rparr>, None), snd ?X)"
    using x by (simp add: prod_eq_iff)
  have Y: "?Y = ((Some \<lparr>DeletedCount = 2\<rparr>, None), snd ?Y)"
    using y by (simp add: prod_eq_iff)
  from Delete_returns_nil [where drv = demo_driver and c = users
      and f = "[(''name'', AnyString ''z'')]" and s = demo_store
      and ?r1.0 = "Some \<lparr>DeletedCount = 0\<rparr>" and ?s1.0 = "snd ?X"] X
  have a: "fst (DeleteOne demo_driver users [(''name'', AnyString ''z'')] demo_store) = None"
    by simp
  from Delete_returns_nil [where drv = demo_driver and c = users
      and f = "[(''name'', AnyString ''a'')]" and s = demo_store
      and ?r2.0 = "Some \<lparr>DeletedCount = 2\<rparr>" and ?s2.0 = "snd ?Y"] Y
  have b: "fst (DeleteMany demo_driver users [(''name'', AnyString ''a'')] demo_store) = None"
    by simp
  from a b x y show ?thesis by simp
qed

section \<open>FindMany and the errors of the cursor\<close>

text \<open>
  C1: the wrapper is to return the driver's error unchanged. \<open>FindMany\<close> does not look at
  the error of \<open>Find\<close> before it uses the cursor. When \<open>Find\<close> fails with a nil cursor (the
  store cannot be reached) the call panics on \<open>cursor.Next\<close>; when \<open>Find\<close> returns an error
  beside a usable cursor, the call returns nil. In neither case does the caller get the
  error of \<open>Find\<close>.
\<close>

theorem FindMany_Find_error_panics:
  "fst (Collection_Find demo_driver (collection users) (ctx (parent users)) [] down_store)
     = (None, Some (Error ''context deadline exceeded'')) \<and>
   fst (FindMany demo_driver users [] (Some []) down_store) = (Panic, Some [], None) \<and>
   fst (FindMany (Find_answers (Some (new_cursor [] None)) (Some (Error ''unreachable'')))
          users [] (Some []) demo_store)
     = (Returns None, Some [], Some ((new_cursor [] None)\<lparr>cur_closed := 1\<rparr>))"
  by (simp add: FindMany_def demo_defs store_Find_def FindMany_loop_Nil Cursor_Err_def
        Cursor_Close_def)

text \<open>
  C2: the cursor is to be closed exactly once on every outcome. \<open>FindMany\<close> closes it only
  on the path that returns nil after a clean end of the iteration. When decoding the
  second result fails, and when the cursor ends with a terminal error, the call returns
  with \<open>cur_closed = 0\<close>.
\<close>

theorem FindMany_leaves_cursor_open:
  "fst (FindMany (Find_answers (Some (new_cursor [Inr doc_a1, Inl (Error ''cannot decode'')] None)) None)
          users [] (Some []) demo_store)
     = (Returns (Some (Error ''cannot decode'')), Some [doc_a1],
        Some \<lparr>cur_batch = [], cur_current = Some (Inl (Error ''cannot decode'')),
              cur_err = None, cur_closed = 0\<rparr>) \<and>
   fst (FindMany (Find_answers (Some (new_cursor [Inr doc_a1] (Some (Error ''cursor killed'')))) None)
          users [] (Some []) demo_store)
     = (Returns None, Some [doc_a1],
        Some \<lparr>cur_batch = [], cur_current = Some (Inr doc_a1),
              cur_err = Some (Error ''cursor killed''), cur_closed = 0\<rparr>)"
  by (simp add: FindMany_def demo_defs FindMany_loop_Nil FindMany_loop_Inl FindMany_loop_Inr
        Cursor_Err_def Cursor_Close_def)

text \<open>
  C3: when the cursor's terminal error is non-nil the call is to return that error. On a
  cursor that delivers one document and then ends with the error \<open>cursor killed\<close>, after
  a \<open>Find\<close> that succeeded, \<open>FindMany\<close> returns nil (the error variable of \<open>Find\<close>), with
  the one document appended.
\<close>

theorem FindMany_drops_cursor_error:
  "fst (FindMany (Find_answers (Some (new_cursor [Inr doc_a1] (Some (Error ''cursor killed'')))) None)
          users [] (Some []) demo_store)
     = (Returns None, Some [doc_a1],
        Some \<lparr>cur_batch = [], cur_current = Some (Inr doc_a1),
              cur_err = Some (Error ''cursor killed''), cur_closed = 0\<rparr>)"
  by (simp add: FindMany_def demo_defs FindMany_loop_Nil FindMany_loop_Inl FindMany_loop_Inr
        Cursor_Err_def Cursor_Close_def)

section \<open>FindMany on the paths of the cursor\<close>

text \<open>
  What \<open>FindMany\<close> does for any driver, on each way the cursor can go: every result
  decodes; some result fails to decode; the iteration ends with a terminal error; the
  driver gives no cursor.
\<close>

lemma FindMany_loop_all_decoded:
  assumes "cur_batch cursor = map Inr ds"
  shows "\<exists>cursor'. FindMany_loop cursor (Some xs) = (Inr (), Some (xs @ ds), cursor') \<and>
           cur_closed cursor' = cur_closed cursor \<and> cur_err cursor' = cur_err cursor \<and>
           cur_batch cursor' = []"
proof -
  obtain r res' cursor' where run: "FindMany_loop cursor (Some xs) = (r, res', cursor')"
    by (cases "FindMany_loop cursor (Some xs)") auto
  from FindMany_loop_res [OF run] obtain ds' rest where
    b: "cur_batch cursor = map Inr ds' @ rest" and r: "res' = Some (xs @ ds')" and
    cb: "cur_batch cursor' = (case rest of [] \<Rightarrow> [] | y # ys \<Rightarrow> ys)" and
    cl: "cur_closed cursor' = cur_closed cursor" and ce: "cur_err cursor' = cur_err cursor" and
    k: "(case rest of [] \<Rightarrow> r = Inr () | Inl e # ys \<Rightarrow> r = Inl (Returns (Some e)) | Inr d # ys \<Rightarrow> False)"
    by blast
  have rest: "rest = []"
  proof (cases rest)
    case Nil then show ?thesis .
  next
    case (Cons y ys)
    with k obtain e where "y = Inl e" by (cases y) auto
    with Cons b assms have "Inl e \<in> set (map Inr ds)"
      by (metis in_set_conv_decomp)
    then show ?thesis by auto
  qed
  with b assms have "map Inr ds = (map Inr ds' :: (error + any) list)" by simp
  then have "ds = ds'" by (simp add: inj_map_eq_map)
  with rest r cb cl ce k run show ?thesis by simp
qed

lemma FindMany_terminal_error:
  assumes find: "Collection_Find drv (collection c) (ctx (parent c)) f s = ((Some cur, err), s1)"
    and batch: "cur_batch cur = map Inr ds"
    and terr: "cur_err cur = Some e"
  shows "\<exists>cur'. FindMany drv c f (Some xs) s = ((Returns err, Some (xs @ ds), Some cur'), s1) \<and>
           cur_closed cur' = cur_closed cur"
proof -
  from FindMany_loop_all_decoded [OF batch, of xs] terr obtain cursor1 where
    "FindMany_loop cur (Some xs) = (Inr (), Some (xs @ ds), cursor1)"
    "cur_closed cursor1 = cur_closed cur" "cur_err cursor1 = Some e"
    by auto
  with find show ?thesis
    by (simp add: FindMany_def Cursor_Err_def)
qed

lemma FindMany_decode_error:
  assumes find: "Collection_Find drv (collection c) (ctx (parent c)) f s = ((Some cur, err), s1)"
    and batch: "cur_batch cur = map Inr ds @ Inl e # rest"
  shows "\<exists>cur'. FindMany drv c f (Some xs) s = ((Returns (Some e), Some (xs @ ds), Some cur'), s1) \<and>
           cur_closed cur' = cur_closed cur"
proof -
  have loop: "\<And>cursor ys. cur_batch cursor = map Inr ds @ Inl e # rest \<Longrightarrow>
      \<exists>cursor'. FindMany_loop cursor (Some ys) = (Inl (Returns (Some e)), Some (ys @ ds), cursor') \<and>
        cur_closed cursor' = cur_closed cursor"
  proof (induction ds)
    case Nil
    then show ?case by (simp add: FindMany_loop_Inl)
  next
    case (Cons d ds)
    from Cons.prems have b: "cur_batch cursor = Inr d # (map Inr ds @ Inl e # rest)" by simp
    let ?c = "cursor\<lparr>cur_batch := map Inr ds @ Inl e # rest, cur_current := Some (Inr d)\<rparr>"
    from Cons.IH [of ?c "ys @ [d]"] show ?case
      by (simp add: FindMany_loop_Inr [OF b])
  qed
  from loop [OF batch, of xs] find show ?thesis
    by (auto simp: FindMany_def)
qed

lemma Find_nil_cursor_panics:
  assumes "Collection_Find drv (collection c) (ctx (parent c)) f s = ((None, err), s1)"
  shows "FindMany drv c f res s = ((Panic, res, None), s1)"
  using assms by (simp add: FindMany_def)

lemma forwards_driver_error:
  "Collection_Drop drv (collection c) (ctx (parent c)) s = (Some e, s1) \<Longrightarrow>
     Drop drv c s = (Some e, s1)"
  "Collection_FindOne drv (collection c) (ctx (parent c)) f s = (sr, s1) \<Longrightarrow>
     sr_Decode sr res = (Some e, res') \<Longrightarrow> FindOne drv c f res s = ((Some e, res'), s1)"
  "Collection_UpdateOne drv (collection c) (ctx (parent c)) f upd s = ((ur, Some e), s1) \<Longrightarrow>
     UpdateOne drv c f upd s = (Returns (0, 0, Some e), s1)"
  "Collection_UpdateMany drv (collection c) (ctx (parent c)) f upd s = ((ur, Some e), s1) \<Longrightarrow>
     UpdateMany drv c f upd s = (Returns (0, 0, Some e), s1)"
  "Collection_InsertOne drv (collection c) (ctx (parent c)) new s = ((ir, Some e), s1) \<Longrightarrow>
     InsertOne drv c new s = (Returns (AnyString '''', Some e), s1)"
  "Collection_InsertMany drv (collection c) (ctx (parent c)) news s = ((imr, Some e), s1) \<Longrightarrow>
     InsertMany drv c news s = (Returns (AnyString '''', Some e), s1)"
  "Collection_DeleteOne drv (collection c) (ctx (parent c)) f s = ((dr, Some e), s1) \<Longrightarrow>
     DeleteOne drv c f s = (Some e, s1)"
  "Collection_DeleteMany drv (collection c) (ctx (parent c)) f s = ((dr, Some e), s1) \<Longrightarrow>
     DeleteMany drv c f s = (Some e, s1)"
  by (simp_all add: Drop_def FindOne_def UpdateOne_def UpdateMany_def InsertOne_def
        InsertMany_def DeleteOne_def DeleteMany_def)

text \<open>
  For any driver: a \<open>FindMany\<close> that returns nil has appended to the caller's slice, in
  the cursor's order, the decoded document of every result the cursor delivered before
  \<open>Next\<close> returned false; and when the cursor delivers results that all decode and ends
  without a terminal error, \<open>FindMany\<close> returns nil with exactly these appended and the
  cursor closed once.
\<close>

lemma FindMany_nil_appends_delivered:
  assumes find: "Collection_Find drv (collection c) (ctx (parent c)) f s = ((Some cur, err), s1)"
  shows "(FindMany drv c f (Some xs) s = ((Returns None, res', cur'), s2) \<longrightarrow>
            (\<exists>ds. cur_batch cur = map Inr ds \<and> res' = Some (xs @ ds) \<and>
                  length ds = length (cur_batch cur))) \<and>
         (cur_batch cur = map Inr ds \<and> cur_err cur = None \<longrightarrow>
            (\<exists>cur''. FindMany drv c f (Some xs) s = ((Returns None, Some (xs @ ds), Some cur''), s1) \<and>
                     cur_closed cur'' = Suc (cur_closed cur)))"
proof (intro conjI impI)
  assume ret: "FindMany drv c f (Some xs) s = ((Returns None, res', cur'), s2)"
  obtain r res1 cursor1 where run: "FindMany_loop cur (Some xs) = (r, res1, cursor1)"
    by (cases "FindMany_loop cur (Some xs)") auto
  from FindMany_loop_res [OF run] obtain ds rest where
    b: "cur_batch cur = map Inr ds @ rest" and r: "res1 = Some (xs @ ds)" and
    k: "(case rest of [] \<Rightarrow> r = Inr () | Inl e # ys \<Rightarrow> r = Inl (Returns (Some e)) | Inr d # ys \<Rightarrow> False)"
    by blast
  have rest: "rest = []"
  proof (cases rest)
    case Nil then show ?thesis .
  next
    case (Cons y ys)
    with k obtain e where "r = Inl (Returns (Some e))" by (cases y) auto
    with ret run find show ?thesis by (simp add: FindMany_def)
  qed
  with k have "r = Inr ()" by simp
  with ret run find have "res' = res1"
    by (simp add: FindMany_def split: if_splits)
  with r b rest show "\<exists>ds. cur_batch cur = map Inr ds \<and> res' = Some (xs @ ds) \<and>
      length ds = length (cur_batch cur)" by auto
next
  assume a: "cur_batch cur = map Inr ds \<and> cur_err cur = None"
  from FindMany_loop_all_decoded [of cur ds xs] a obtain cursor1 where
    "FindMany_loop cur (Some xs) = (Inr (), Some (xs @ ds), cursor1)"
    "cur_closed cursor1 = cur_closed cur" "cur_err cursor1 = None"
    by auto
  with find show "\<exists>cur''. FindMany drv c f (Some xs) s = ((Returns None, Some (xs @ ds), Some cur''), s1) \<and>
                     cur_closed cur'' = Suc (cur_closed cur)"
    by (simp add: FindMany_def Cursor_Err_def Cursor_Close_def)
qed

text \<open>
  C4: a successful \<open>FindMany\<close> is to append all N documents the filter matches. On the
  store of three documents the filter \<open>name = a\<close> matches two; when the cursor delivers
  the first and then ends with the terminal error \<open>cursor killed\<close>, \<open>FindMany\<close> returns
  nil, as a successful call does, with one document appended.
\<close>

theorem FindMany_nil_with_fewer_documents:
  "matching field_matches [(''name'', AnyString ''a'')] (st_colls demo_store (collection users))
     = [(0, doc_a1), (1, doc_a2)] \<and>
   fst (FindMany (killed_driver 1 (Error ''cursor killed'')) users
          [(''name'', AnyString ''a'')] (Some []) demo_store)
     = (Returns None, Some [doc_a1],
        Some \<lparr>cur_batch = [], cur_current = Some (Inr doc_a1),
              cur_err = Some (Error ''cursor killed''), cur_closed = 0\<rparr>)"
  by (simp add: FindMany_def killed_driver_def store_Find_killed_def demo_defs matching_def
        field_matches_def decode_any_def FindMany_loop_Nil FindMany_loop_Inr Cursor_Err_def)

section \<open>Reading and writing the modelled store\<close>

text \<open>
  C5: on the modelled store, a \<open>FindOne\<close> whose filter matches no document of the
  collection returns a non-nil error, and the container holds afterwards the value it held
  before; the store is unchanged.
\<close>

theorem FindOne_no_match:
  assumes "matching m f (st_colls s (collection c)) = []"
  shows "\<exists>e. FindOne (store_driver m u dec) c f res s = ((Some e, res), s)"
  using assms
  by (cases "st_down s") (simp_all add: FindOne_def store_driver_def store_FindOne_def)

text \<open>No stored document has \<open>name = z\<close>: the call returns the driver's no-documents error.\<close>

theorem FindOne_no_match_witness:
  "matching field_matches [(''name'', AnyString ''z'')] (st_colls demo_store (collection users)) = [] \<and>
   FindOne demo_driver users [(''name'', AnyString ''z'')] AnyNil demo_store
     = ((Some ErrNoDocuments, AnyNil), demo_store)"
proof -
  have h: "matching field_matches [(''name'', AnyString ''z'')]
             (st_colls demo_store (collection users)) = []"
    by (simp add: demo_defs matching_def field_matches_def)
  have "FindOne demo_driver users [(''name'', AnyString ''z'')] AnyNil demo_store
     = ((Some ErrNoDocuments, AnyNil), demo_store)"
    using h by (simp add: FindOne_def demo_driver_def store_driver_def store_FindOne_def demo_store_def)
  with FindOne_no_match [OF h, of set_fields decode_any AnyNil] h show ?thesis
    by simp
qed

text \<open>The counts of updating the first matching document, and of a filter made stronger.\<close>

lemma update_first_counts:
  "update_first p g ds = (ds', mc, md) \<Longrightarrow>
     mc = (if filter (\<lambda>(i, d). p d) ds = [] then 0 else 1) \<and> (md = 0 \<or> md = 1) \<and> md \<le> mc"
proof (induction ds arbitrary: ds' mc md)
  case Nil
  then show ?case by simp
next
  case (Cons a ds)
  obtain i d where a: "a = (i, d)" by (cases a)
  show ?case
  proof (cases "p d")
    case True
    with Cons.prems a show ?thesis by (auto split: if_splits)
  next
    case False
    obtain ds1 m1 n1 where r: "update_first p g ds = (ds1, m1, n1)"
      by (cases "update_first p g ds") auto
    with Cons.prems a False have "mc = m1" "md = n1" by auto
    with Cons.IH [OF r] a False show ?thesis by simp
  qed
qed

lemma length_filter_conj_le:
  "length (filter (\<lambda>x. P x \<and> Q x) xs) \<le> length (filter P xs)"
  by (induction xs) auto

text \<open>
  C6, as the claim has it, asks of \<open>UpdateOne\<close> both that the matched count is 0 or 1 and
  that it equals the number M of documents the filter matches. On the store of three
  documents the filter \<open>name = a\<close> matches two, and \<open>UpdateOne\<close> returns the matched
  count 1.
\<close>

theorem UpdateOne_matched_counterexample:
  "int (length (matching field_matches [(''name'', AnyString ''a'')]
          (st_colls demo_store (collection users)))) = 2 \<and>
   fst (UpdateOne demo_driver users [(''name'', AnyString ''a'')] [(''$set'', AnyD [(''n'', AnyInt 7)])]
          demo_store)
     = Returns (1, 1, None)"
  by (simp add: demo_defs matching_def field_matches_def UpdateOne_def store_UpdateOne_def
        update_document_error_def set_fields_def)

text \<open>
  C6, amended: on the modelled store, a successful \<open>UpdateOne\<close> returns counts that are
  each 0 or 1, the modified count at most the matched count, and the matched count 1 when
  the filter matches some document and 0 when it matches none; a successful \<open>UpdateMany\<close>
  on a filter matching M documents returns the matched count M and a modified count
  between 0 and M.
\<close>

theorem update_counts:
  "(UpdateOne (store_driver m u dec) c f upd s = (Returns (mc, md, None), s1) \<longrightarrow>
      (mc = 0 \<or> mc = 1) \<and> (md = 0 \<or> md = 1) \<and> md \<le> mc \<and>
      mc = (if matching m f (st_colls s (collection c)) = [] then 0 else 1)) \<and>
   (UpdateMany (store_driver m u dec) c f upd s = (Returns (mc', md', None), s2) \<longrightarrow>
      mc' = int (length (matching m f (st_colls s (collection c)))) \<and> 0 \<le> md' \<and> md' \<le> mc')"
proof (rule conjI; rule impI)
  assume a: "UpdateOne (store_driver m u dec) c f upd s = (Returns (mc, md, None), s1)"
  obtain ds1 m1 n1 where r: "update_first (m f) (u upd) (st_colls s (collection c)) = (ds1, m1, n1)"
    by (cases "update_first (m f) (u upd) (st_colls s (collection c))") auto
  from a r have "mc = m1 \<and> md = n1"
    by (cases "update_document_error upd"; cases "st_down s")
       (simp_all add: UpdateOne_def store_driver_def store_UpdateOne_def)
  with update_first_counts [OF r]
  show "(mc = 0 \<or> mc = 1) \<and> (md = 0 \<or> md = 1) \<and> md \<le> mc \<and>
      mc = (if matching m f (st_colls s (collection c)) = [] then 0 else 1)"
    by (auto simp: matching_def)
next
  assume a: "UpdateMany (store_driver m u dec) c f upd s = (Returns (mc', md', None), s2)"
  let ?ds = "st_colls s (collection c)"
  from a have "mc' = int (length (matching m f ?ds)) \<and>
      md' = int (length (filter (\<lambda>(i, d). m f d \<and> u upd d \<noteq> d) ?ds))"
    by (cases "update_document_error upd"; cases "st_down s")
       (simp_all add: UpdateMany_def store_driver_def store_UpdateMany_def Let_def)
  moreover have "length (filter (\<lambda>(i, d). m f d \<and> u upd d \<noteq> d) ?ds) \<le> length (matching m f ?ds)"
    using length_filter_conj_le [of "\<lambda>(i, d). m f d" "\<lambda>(i, d). u upd d \<noteq> d" ?ds]
    by (simp add: matching_def split_def)
  ultimately show "mc' = int (length (matching m f ?ds)) \<and> 0 \<le> md' \<and> md' \<le> mc'"
    by simp
qed

text \<open>
  Setting \<open>n = 1\<close> where \<open>name = a\<close>: \<open>UpdateOne\<close> matches the first document and changes
  nothing (1, 0); \<open>UpdateMany\<close> matches two and changes the second (2, 1).
\<close>

theorem update_counts_witness:
  "fst (UpdateOne demo_driver users [(''name'', AnyString ''a'')]
          [(''$set'', AnyD [(''n'', AnyInt 1)])] demo_store)
     = Returns (1, 0, None) \<and>
   fst (UpdateMany demo_driver users [(''name'', AnyString ''a'')]
          [(''$set'', AnyD [(''n'', AnyInt 1)])] demo_store)
     = Returns (2, 1, None) \<and>
   (1::int) = (if matching field_matches [(''name'', AnyString ''a'')]
                    (st_colls demo_store (collection users)) = [] then 0 else 1) \<and>
   (2::int) = int (length (matching field_matches [(''name'', AnyString ''a'')]
                    (st_colls demo_store (collection users))))"
proof -
  let ?f = "[(''name'', AnyString ''a'')]"
  let ?u = "[(''$set'', AnyD [(''n'', AnyInt 1)])]"
  let ?X = "UpdateOne demo_driver users ?f ?u demo_store"
  let ?Y = "UpdateMany demo_driver users ?f ?u demo_store"
  have x: "fst ?X = Returns (1, 0, None)"
    by (simp add: demo_defs UpdateOne_def store_UpdateOne_def update_document_error_def
          field_matches_def set_fields_def)
  have y: "fst ?Y = Returns (2, 1, None)"
    by (simp add: demo_defs UpdateMany_def store_UpdateMany_def update_document_error_def
          matching_def field_matches_def set_fields_def)
  have X: "UpdateOne (store_driver field_matches set_fields decode_any) users ?f ?u demo_store
             = (Returns (1, 0, None), snd ?X)"
    using x by (simp add: prod_eq_iff demo_driver_def)
  have Y: "UpdateMany (store_driver field_matches set_fields decode_any) users ?f ?u demo_store
             = (Returns (2, 1, None), snd ?Y)"
    using y by (simp add: prod_eq_iff demo_driver_def)
  from update_counts [where m = field_matches and u = set_fields and dec = decode_any
      and c = users and f = ?f and upd = ?u and s = demo_store
      and mc = 1 and md = 0 and ?s1.0 = "snd ?X" and mc' = 2 and md' = 1 and ?s2.0 = "snd ?Y"]
    X Y x y
  show ?thesis by simp
qed

text \<open>
  C8: on the modelled store, a successful \<open>InsertMany\<close> of K documents returns a sequence
  of K identifiers, pairwise different, and the collection holds afterwards, after the
  documents it held, the i-th input document under the i-th identifier.
\<close>

theorem InsertMany_ids:
  assumes "InsertMany (store_driver m u dec) c new s = (Returns (ids, None), s1)"
  shows "\<exists>ks. ids = AnySlice (map AnyObjectID ks) \<and> length ks = length new \<and> distinct ks \<and>
           st_colls s1 (collection c) = st_colls s (collection c) @ zip ks new"
  using assms
  by (cases "st_down s")
     (auto simp: InsertMany_def store_driver_def store_InsertMany_def Let_def
        intro!: exI [of _ "[st_next s ..< st_next s + length new]"])

text \<open>Two documents inserted into the store whose next identifier is 3 get 3 and 4.\<close>

theorem InsertMany_ids_witness:
  "fst (InsertMany demo_driver users [doc_b, doc_a1] demo_store)
     = Returns (AnySlice [AnyObjectID 3, AnyObjectID 4], None) \<and>
   (\<exists>ks. AnySlice [AnyObjectID 3, AnyObjectID 4] = AnySlice (map AnyObjectID ks) \<and>
         length ks = length [doc_b, doc_a1] \<and> distinct ks \<and>
         st_colls (snd (InsertMany demo_driver users [doc_b, doc_a1] demo_store)) (collection users)
           = st_colls demo_store (collection users) @ zip ks [doc_b, doc_a1])"
proof -
  let ?X = "InsertMany demo_driver users [doc_b, doc_a1] demo_store"
  have x: "fst ?X = Returns (AnySlice [AnyObjectID 3, AnyObjectID 4], None)"
    by (simp add: demo_driver_def store_driver_def demo_store_def InsertMany_def
          store_InsertMany_def upt_rec)
  have X: "InsertMany (store_driver field_matches set_fields decode_any) users [doc_b, doc_a1]
             demo_store = (Returns (AnySlice [AnyObjectID 3, AnyObjectID 4], None), snd ?X)"
    using x by (simp add: prod_eq_iff demo_driver_def)
  from InsertMany_ids [OF X] x show ?thesis by simp
qed

end
